theory Spec2Isabelle
  imports Main
begin

section \<open>Text primitives of the platform\<close>

text \<open>
  Text is modelled as \<^typ>\<open>string\<close>: a list of code units below 256. The source is
  JavaScript, whose strings are sequences of UTF-16 code units; the model covers the texts
  whose code units all lie below 256. The functions of this section are the built-in
  string operations the source calls: \<^verbatim>\<open>includes\<close>, \<^verbatim>\<open>trim\<close>, \<^verbatim>\<open>slice(0, n)\<close> and
  \<^verbatim>\<open>replace(/```json|```/g, '')\<close>.
\<close>

fun startsWith :: "string \<Rightarrow> string \<Rightarrow> bool" where
  "startsWith s [] = True"
| "startsWith [] (p # ps) = False"
| "startsWith (c # cs) (p # ps) = (c = p \<and> startsWith cs ps)"

fun includes_str :: "string \<Rightarrow> string \<Rightarrow> bool" where
  \<comment> \<open>\<^verbatim>\<open>s.includes(t)\<close>\<close>
  "includes_str [] t = (t = [])"
| "includes_str (c # cs) t = (startsWith (c # cs) t \<or> includes_str cs t)"

definition is_whitespace :: "char \<Rightarrow> bool" where
  \<comment> \<open>WhiteSpace and LineTerminator of ECMAScript, below code unit 256:
      TAB, LF, VT, FF, CR, SP, NBSP.\<close>
  "is_whitespace c \<longleftrightarrow>
     c = CHR 0x09 \<or> c = CHR 0x0A \<or> c = CHR 0x0B \<or> c = CHR 0x0C \<or> c = CHR 0x0D
     \<or> c = CHR 0x20 \<or> c = CHR 0xA0"

definition trim :: "string \<Rightarrow> string" where
  "trim s = rev (dropWhile is_whitespace (rev (dropWhile is_whitespace s)))"

definition slice0 :: "nat \<Rightarrow> string \<Rightarrow> string" where
  \<comment> \<open>\<^verbatim>\<open>s.slice(0, n)\<close>\<close>
  "slice0 n s = take n s"

definition fence :: string where
  "fence = [CHR 0x60, CHR 0x60, CHR 0x60]"

definition fence_json :: string where
  "fence_json = fence @ ''json''"

text \<open>
  \<^verbatim>\<open>s.replace(/```json|```/g, '')\<close>: one left-to-right pass; at each position the first
  alternative is tried before the second, a match is deleted and the scan resumes after it.
\<close>

function strip_fences :: "string \<Rightarrow> string" where
  "strip_fences [] = []"
| "strip_fences (c # cs) =
     (if startsWith (c # cs) fence_json then strip_fences (drop 6 cs)
      else if startsWith (c # cs) fence then strip_fences (drop 2 cs)
      else c # strip_fences cs)"
  by pat_completeness auto
termination
  by (relation "measure length") auto

section \<open>JSON values, \<^verbatim>\<open>JSON.parse\<close> and \<^verbatim>\<open>JSON.stringify\<close>\<close>

text \<open>
  A parsed JSON document. An object is the list of its own properties in the order
  JavaScript enumerates them. A numeral that denotes an integer of magnitude at most
  \<open>2^53\<close> is \<open>JNum\<close>; every other numeral (fraction, exponent, larger magnitude, negative
  zero) is kept as its lexeme in \<open>JReal\<close>, since the model does not compute with IEEE
  doubles. \<open>JNull\<close> is also the \<^verbatim>\<open>null\<close> that React state variables start with.
\<close>

datatype json =
    JNull
  | JBool bool
  | JNum int
  | JReal string
  | JStr string
  | JArr "json list"
  | JObj "(string \<times> json) list"

datatype token =
    TLBrace | TRBrace | TLBrack | TRBrack | TColon | TComma
  | TScalar json

subsection \<open>Lexical analysis\<close>

definition is_json_ws :: "char \<Rightarrow> bool" where
  \<comment> \<open>JSON whitespace: TAB, LF, CR, SP\<close>
  "is_json_ws c \<longleftrightarrow> c = CHR 0x09 \<or> c = CHR 0x0A \<or> c = CHR 0x0D \<or> c = CHR 0x20"

definition code_unit :: "char \<Rightarrow> int" where
  "code_unit c = of_char c"

definition is_digit :: "char \<Rightarrow> bool" where
  "is_digit c \<longleftrightarrow> 48 \<le> code_unit c \<and> code_unit c \<le> 57"

definition digit_val :: "char \<Rightarrow> int" where
  "digit_val c = code_unit c - 48"

definition hex_val :: "char \<Rightarrow> int option" where
  "hex_val c =
     (if is_digit c then Some (code_unit c - 48)
      else if 97 \<le> code_unit c \<and> code_unit c \<le> 102 then Some (code_unit c - 87)
      else if 65 \<le> code_unit c \<and> code_unit c \<le> 70 then Some (code_unit c - 55)
      else None)"

definition hex4 :: "char \<Rightarrow> char \<Rightarrow> char \<Rightarrow> char \<Rightarrow> int option" where
  "hex4 a b c d =
     (case (hex_val a, hex_val b, hex_val c, hex_val d) of
        (Some x, Some y, Some z, Some w) \<Rightarrow> Some (((x * 16 + y) * 16 + z) * 16 + w)
      | _ \<Rightarrow> None)"

definition unescape :: "char \<Rightarrow> char option" where
  \<comment> \<open>the single-character escapes of a JSON string\<close>
  "unescape e =
     (if e = CHR 0x22 then Some (CHR 0x22)
      else if e = CHR 0x5C then Some (CHR 0x5C)
      else if e = CHR ''/'' then Some (CHR ''/'')
      else if e = CHR ''b'' then Some (CHR 0x08)
      else if e = CHR ''f'' then Some (CHR 0x0C)
      else if e = CHR ''n'' then Some (CHR 0x0A)
      else if e = CHR ''r'' then Some (CHR 0x0D)
      else if e = CHR ''t'' then Some (CHR 0x09)
      else None)"

definition cons_char :: "char \<Rightarrow> (string \<times> string) option \<Rightarrow> (string \<times> string) option" where
  "cons_char c r = (case r of None \<Rightarrow> None | Some (s, rest) \<Rightarrow> Some (c # s, rest))"

text \<open>
  The body of a string literal, after its opening quote: the decoded text and the input
  after the closing quote. A \<^verbatim>\<open>\u\<close> escape of a code unit above 255 has no image in
  \<^typ>\<open>string\<close> and is refused by the model; JavaScript accepts it.
\<close>

fun lex_string :: "string \<Rightarrow> (string \<times> string) option" where
  "lex_string [] = None"
| "lex_string (c # cs) =
     (if c = CHR 0x22 then Some ([], cs)
      else if c = CHR 0x5C then
        (case cs of
           [] \<Rightarrow> None
         | e # cs' \<Rightarrow>
             (if e = CHR ''u'' then
                (case cs' of
                   h1 # h2 # h3 # h4 # rest \<Rightarrow>
                     (case hex4 h1 h2 h3 h4 of
                        None \<Rightarrow> None
                      | Some n \<Rightarrow> if n < 256 then cons_char (char_of n) (lex_string rest) else None)
                 | _ \<Rightarrow> None)
              else
                (case unescape e of
                   None \<Rightarrow> None
                 | Some ch \<Rightarrow> cons_char ch (lex_string cs'))))
      else if code_unit c < 32 then None
      else cons_char c (lex_string cs))"

lemma lex_string_shorter: "lex_string cs = Some (s, rest) \<Longrightarrow> length rest \<le> length cs"
proof (induction cs arbitrary: s rule: lex_string.induct)
  case 1
  then show ?case by simp
next
  case (2 c cs)
  then show ?case
    by (fastforce simp: cons_char_def split: if_splits list.splits option.splits)
qed

definition int_of_digits :: "string \<Rightarrow> int" where
  "int_of_digits ds = foldl (\<lambda>n c. 10 * n + digit_val c) 0 ds"

text \<open>
  A numeral of the JSON grammar at the head of the input:
  \<^verbatim>\<open>-? (0 | [1-9][0-9]*) (. [0-9]+)? ([eE] [+-]? [0-9]+)?\<close>,
  with its value and the input after it. The parts return the text they consumed.
\<close>

definition lex_sign :: "string \<Rightarrow> string \<times> string" where
  "lex_sign s = (if startsWith s ''-'' then (''-'', tl s) else ([], s))"

definition lex_sign_exp :: "string \<Rightarrow> string \<times> string" where
  "lex_sign_exp s =
     (if startsWith s ''+'' \<or> startsWith s ''-'' then ([hd s], tl s) else ([], s))"

definition lex_frac :: "string \<Rightarrow> (string \<times> string) option" where
  "lex_frac s =
     (if startsWith s ''.'' then
        (if takeWhile is_digit (tl s) = [] then None
         else Some (CHR ''.'' # takeWhile is_digit (tl s), dropWhile is_digit (tl s)))
      else Some ([], s))"

definition lex_exp :: "string \<Rightarrow> (string \<times> string) option" where
  "lex_exp s =
     (if startsWith s ''e'' \<or> startsWith s ''E'' then
        (case lex_sign_exp (tl s) of (sg, r) \<Rightarrow>
           if takeWhile is_digit r = [] then None
           else Some (hd s # sg @ takeWhile is_digit r, dropWhile is_digit r))
      else Some ([], s))"

definition number_value :: "string \<Rightarrow> string \<Rightarrow> string \<Rightarrow> string \<Rightarrow> json" where
  "number_value sg ip fl el =
     (if fl \<noteq> [] \<or> el \<noteq> [] \<or> (sg \<noteq> [] \<and> ip = ''0'') \<or> 2 ^ 53 < int_of_digits ip
      then JReal (sg @ ip @ fl @ el)
      else JNum (if sg \<noteq> [] then - int_of_digits ip else int_of_digits ip))"

definition lex_number :: "string \<Rightarrow> (json \<times> string) option" where
  "lex_number s =
     (case lex_sign s of (sg, s1) \<Rightarrow>
        let ip = takeWhile is_digit s1; s2 = dropWhile is_digit s1
        in if ip = [] \<or> (1 < length ip \<and> hd ip = CHR ''0'') then None
           else (case lex_frac s2 of
                   None \<Rightarrow> None
                 | Some (fl, s3) \<Rightarrow>
                     (case lex_exp s3 of
                        None \<Rightarrow> None
                      | Some (el, s4) \<Rightarrow> Some (number_value sg ip fl el, s4))))"

lemma lex_sign_shorter: "lex_sign s = (sg, r) \<Longrightarrow> length r \<le> length s"
  by (auto simp: lex_sign_def split: if_splits)

lemma lex_sign_exp_shorter: "lex_sign_exp s = (sg, r) \<Longrightarrow> length r \<le> length s"
  by (auto simp: lex_sign_exp_def split: if_splits)

lemma lex_frac_shorter: "lex_frac s = Some (fl, r) \<Longrightarrow> length r \<le> length s"
proof -
  assume a: "lex_frac s = Some (fl, r)"
  have "length (dropWhile is_digit (tl s)) \<le> length (tl s)"
    by (rule length_dropWhile_le)
  with a show ?thesis
    by (auto simp: lex_frac_def split: if_splits)
qed

lemma lex_exp_shorter: "lex_exp s = Some (el, r) \<Longrightarrow> length r \<le> length s"
proof -
  assume a: "lex_exp s = Some (el, r)"
  obtain sg r0 where sr: "lex_sign_exp (tl s) = (sg, r0)"
    by (cases "lex_sign_exp (tl s)")
  have "length (dropWhile is_digit r0) \<le> length r0"
    by (rule length_dropWhile_le)
  with a sr lex_sign_exp_shorter [OF sr] show ?thesis
    by (auto simp: lex_exp_def split: if_splits)
qed

lemma dropWhile_shorter: "takeWhile P xs \<noteq> [] \<Longrightarrow> length (dropWhile P xs) < length xs"
  by (cases xs) (auto simp: le_imp_less_Suc length_dropWhile_le split: if_splits)

lemma lex_number_shorter:
  assumes "lex_number s = Some (v, rest)"
  shows "length rest < length s"
proof -
  obtain sg s1 where sg: "lex_sign s = (sg, s1)"
    by (cases "lex_sign s")
  define s2 where "s2 = dropWhile is_digit s1"
  from assms sg have ip: "takeWhile is_digit s1 \<noteq> []"
    by (auto simp: lex_number_def Let_def split: if_splits)
  from assms sg ip obtain fl s3 where fr: "lex_frac s2 = Some (fl, s3)"
    by (auto simp: lex_number_def Let_def s2_def split: if_splits option.splits)
  from assms sg ip fr obtain el where ex: "lex_exp s3 = Some (el, rest)"
    by (auto simp: lex_number_def Let_def s2_def split: if_splits option.splits)
  have "length s2 < length s1"
    unfolding s2_def using ip by (rule dropWhile_shorter)
  with lex_sign_shorter [OF sg] lex_frac_shorter [OF fr] lex_exp_shorter [OF ex]
  show ?thesis by simp
qed

definition cons_token :: "token \<Rightarrow> token list option \<Rightarrow> token list option" where
  "cons_token t r = (case r of None \<Rightarrow> None | Some ts \<Rightarrow> Some (t # ts))"

function lex :: "string \<Rightarrow> token list option" where
  "lex [] = Some []"
| "lex (c # cs) =
     (if is_json_ws c then lex cs
      else if c = CHR ''{'' then cons_token TLBrace (lex cs)
      else if c = CHR ''}'' then cons_token TRBrace (lex cs)
      else if c = CHR ''['' then cons_token TLBrack (lex cs)
      else if c = CHR '']'' then cons_token TRBrack (lex cs)
      else if c = CHR '':'' then cons_token TColon (lex cs)
      else if c = CHR '','' then cons_token TComma (lex cs)
      else if c = CHR 0x22 then
        (case lex_string cs of
           None \<Rightarrow> None
         | Some (s, rest) \<Rightarrow> cons_token (TScalar (JStr s)) (lex rest))
      else if c = CHR ''-'' \<or> is_digit c then
        (case lex_number (c # cs) of
           None \<Rightarrow> None
         | Some (v, rest) \<Rightarrow> cons_token (TScalar v) (lex rest))
      else if startsWith (c # cs) ''true'' then cons_token (TScalar (JBool True)) (lex (drop 3 cs))
      else if startsWith (c # cs) ''false'' then cons_token (TScalar (JBool False)) (lex (drop 4 cs))
      else if startsWith (c # cs) ''null'' then cons_token (TScalar JNull) (lex (drop 3 cs))
      else None)"
  by pat_completeness auto
termination
  apply (relation "measure length")
          apply simp_all
  subgoal for c cs x2 s rest using lex_string_shorter [of cs s rest] by simp
  subgoal for c cs x2 v rest using lex_number_shorter [of "c # cs" v rest] by simp
  done

subsection \<open>Objects\<close>

text \<open>
  JavaScript enumerates the own properties of an object with the array-index keys first,
  in ascending numeric order, then the other keys in the order they were created. Defining
  a property that exists keeps its place and replaces its value.
\<close>

definition is_array_index :: "string \<Rightarrow> bool" where
  \<comment> \<open>the canonical decimal spelling of an integer between 0 and \<open>2^32 - 2\<close>\<close>
  "is_array_index k \<longleftrightarrow>
     k \<noteq> [] \<and> list_all is_digit k \<and> (k = ''0'' \<or> hd k \<noteq> CHR ''0'')
     \<and> length k \<le> 10 \<and> int_of_digits k \<le> 4294967294"

fun insert_index :: "string \<Rightarrow> json \<Rightarrow> (string \<times> json) list \<Rightarrow> (string \<times> json) list" where
  "insert_index k v [] = [(k, v)]"
| "insert_index k v ((k', v') # ms) =
     (if is_array_index k' \<and> int_of_digits k' < int_of_digits k
      then (k', v') # insert_index k v ms
      else (k, v) # (k', v') # ms)"

fun replace_value :: "string \<Rightarrow> json \<Rightarrow> (string \<times> json) list \<Rightarrow> (string \<times> json) list" where
  "replace_value k v [] = []"
| "replace_value k v ((k', v') # ms) =
     (if k' = k then (k, v) # ms else (k', v') # replace_value k v ms)"

definition define_property :: "string \<Rightarrow> json \<Rightarrow> (string \<times> json) list \<Rightarrow> (string \<times> json) list" where
  "define_property k v ms =
     (if map_of ms k \<noteq> None then replace_value k v ms
      else if is_array_index k then insert_index k v ms
      else ms @ [(k, v)])"

subsection \<open>Syntax analysis\<close>

text \<open>
  The grammar of JSON as a machine over the tokens: a stack of the containers that are
  open, and what may come next.
\<close>

datatype frame =
    InArray "json list"
  | InObject "(string \<times> json) list"
  | InMember "(string \<times> json) list" string

datatype expect =
    ExpValue
  | ExpValueOrEnd
  | ExpKey
  | ExpKeyOrEnd
  | ExpColon
  | ExpCommaOrEnd
  | Done json

fun complete :: "json \<Rightarrow> frame list \<Rightarrow> (expect \<times> frame list) option" where
  "complete v [] = Some (Done v, [])"
| "complete v (InArray es # st) = Some (ExpCommaOrEnd, InArray (es @ [v]) # st)"
| "complete v (InMember ms k # st) = Some (ExpCommaOrEnd, InObject (define_property k v ms) # st)"
| "complete v (InObject ms # st) = None"

fun parse_value_token :: "token \<Rightarrow> frame list \<Rightarrow> (expect \<times> frame list) option" where
  "parse_value_token (TScalar v) st = complete v st"
| "parse_value_token TLBrack st = Some (ExpValueOrEnd, InArray [] # st)"
| "parse_value_token TLBrace st = Some (ExpKeyOrEnd, InObject [] # st)"
| "parse_value_token _ st = None"

fun parse_key_token :: "token \<Rightarrow> frame list \<Rightarrow> (expect \<times> frame list) option" where
  "parse_key_token (TScalar (JStr k)) (InObject ms # st) = Some (ExpColon, InMember ms k # st)"
| "parse_key_token _ st = None"

fun close_array :: "frame list \<Rightarrow> (expect \<times> frame list) option" where
  "close_array (InArray es # st) = complete (JArr es) st"
| "close_array _ = None"

fun close_object :: "frame list \<Rightarrow> (expect \<times> frame list) option" where
  "close_object (InObject ms # st) = complete (JObj ms) st"
| "close_object _ = None"

fun after_comma :: "frame list \<Rightarrow> (expect \<times> frame list) option" where
  "after_comma (InArray es # st) = Some (ExpValue, InArray es # st)"
| "after_comma (InObject ms # st) = Some (ExpKey, InObject ms # st)"
| "after_comma _ = None"

fun parse_step :: "expect \<Rightarrow> frame list \<Rightarrow> token \<Rightarrow> (expect \<times> frame list) option" where
  "parse_step ExpValue st t = parse_value_token t st"
| "parse_step ExpValueOrEnd st t = (if t = TRBrack then close_array st else parse_value_token t st)"
| "parse_step ExpKey st t = parse_key_token t st"
| "parse_step ExpKeyOrEnd st t = (if t = TRBrace then close_object st else parse_key_token t st)"
| "parse_step ExpColon st t = (if t = TColon then Some (ExpValue, st) else None)"
| "parse_step ExpCommaOrEnd st t =
     (if t = TComma then after_comma st
      else if t = TRBrack then close_array st
      else if t = TRBrace then close_object st
      else None)"
| "parse_step (Done v) st t = None"

fun parse_tokens :: "expect \<Rightarrow> frame list \<Rightarrow> token list \<Rightarrow> json option" where
  "parse_tokens e st [] = (case e of Done v \<Rightarrow> Some v | _ \<Rightarrow> None)"
| "parse_tokens e st (t # ts) =
     (case parse_step e st t of
        None \<Rightarrow> None
      | Some (e', st') \<Rightarrow> parse_tokens e' st' ts)"

definition JSON_parse :: "string \<Rightarrow> json option" where
  \<comment> \<open>\<open>None\<close> is the SyntaxError that \<^verbatim>\<open>JSON.parse\<close> throws\<close>
  "JSON_parse s = (case lex s of None \<Rightarrow> None | Some ts \<Rightarrow> parse_tokens ExpValue [] ts)"

subsection \<open>Serialization\<close>

definition hex_digit :: "int \<Rightarrow> char" where
  "hex_digit d = (if d < 10 then char_of (48 + d) else char_of (87 + d))"

definition quote_char :: "char \<Rightarrow> string" where
  "quote_char c =
     (if c = CHR 0x08 then [CHR 0x5C, CHR ''b'']
      else if c = CHR 0x09 then [CHR 0x5C, CHR ''t'']
      else if c = CHR 0x0A then [CHR 0x5C, CHR ''n'']
      else if c = CHR 0x0C then [CHR 0x5C, CHR ''f'']
      else if c = CHR 0x0D then [CHR 0x5C, CHR ''r'']
      else if c = CHR 0x22 then [CHR 0x5C, CHR 0x22]
      else if c = CHR 0x5C then [CHR 0x5C, CHR 0x5C]
      else if code_unit c < 32 then
        [CHR 0x5C, CHR ''u'', CHR ''0'', CHR ''0'',
         hex_digit (code_unit c div 16), hex_digit (code_unit c mod 16)]
      else [c])"

definition quote :: "string \<Rightarrow> string" where
  "quote s = CHR 0x22 # concat (map quote_char s) @ [CHR 0x22]"

function show_nat :: "int \<Rightarrow> string" where
  "show_nat n = (if n < 10 then [char_of (48 + n)] else show_nat (n div 10) @ [char_of (48 + n mod 10)])"
  by pat_completeness auto
termination
  by (relation "measure nat") auto

definition show_int :: "int \<Rightarrow> string" where
  "show_int i = (if i < 0 then CHR ''-'' # show_nat (- i) else show_nat i)"

definition is_numeral :: "string \<Rightarrow> bool" where
  "is_numeral l = (case lex_number l of Some (v, []) \<Rightarrow> True | _ \<Rightarrow> False)"

text \<open>
  \<^verbatim>\<open>JSON.stringify(v)\<close> without indentation. A \<open>JReal\<close> prints as its lexeme (JavaScript
  prints the shortest decimal that denotes the same double); a \<open>JReal\<close> that is no numeral
  does not come out of \<open>JSON_parse\<close> and prints as \<^verbatim>\<open>null\<close>, as a non-finite number does.
\<close>

fun JSON_stringify :: "json \<Rightarrow> string"
  and stringify_elements :: "json list \<Rightarrow> string"
  and stringify_members :: "(string \<times> json) list \<Rightarrow> string" where
  "JSON_stringify JNull = ''null''"
| "JSON_stringify (JBool b) = (if b then ''true'' else ''false'')"
| "JSON_stringify (JNum n) = show_int n"
| "JSON_stringify (JReal l) = (if is_numeral l then l else ''null'')"
| "JSON_stringify (JStr s) = quote s"
| "JSON_stringify (JArr vs) = ''['' @ stringify_elements vs @ '']''"
| "JSON_stringify (JObj ms) = ''{'' @ stringify_members ms @ ''}''"
| "stringify_elements [] = []"
| "stringify_elements [v] = JSON_stringify v"
| "stringify_elements (v # w # vs) = JSON_stringify v @ '','' @ stringify_elements (w # vs)"
| "stringify_members [] = []"
| "stringify_members [(k, v)] = quote k @ '':'' @ JSON_stringify v"
| "stringify_members ((k, v) # m # ms) =
     quote k @ '':'' @ JSON_stringify v @ '','' @ stringify_members (m # ms)"

section \<open>Model Gateway: \<^verbatim>\<open>callGemini\<close>\<close>

text \<open>
  What one \<^verbatim>\<open>fetch\<close> of the endpoint can come to: the request is rejected (no
  connection), or a response arrives with its \<^verbatim>\<open>ok\<close> flag and its body. The body is
  typed after the endpoint's response schema, every level optional; a body that is not JSON
  (\<^verbatim>\<open>response.json()\<close> rejects) or is \<^verbatim>\<open>null\<close> is \<open>None\<close>.
\<close>

datatype part = Part (text_of: "string option")
datatype content = Content (parts_of: "part list option")
datatype gen_candidate = GenCandidate (content_of: "content option")
datatype response_data = ResponseData (candidates_of: "gen_candidate list option")

datatype fetch_result =
    NetworkError
  | Response bool "response_data option"

datatype js_error = Error string | TypeError | SyntaxError

type_synonym request = "string \<times> string"

text \<open>
  The effects the agents have on the outside: the requests sent to the endpoint (prompt and
  system instruction), the lines written with \<^verbatim>\<open>console.error\<close>, the \<^verbatim>\<open>alert\<close> dialogs
  shown, and the \<^verbatim>\<open>screenings\<close> collection of the store.
\<close>

record screening_doc =
  jobTitle :: string
  score :: "json option"
  recommendation :: "json option"
  timestamp :: int
  createdBy :: string

record world =
  requests :: "request list"
  console :: "string list"
  alerts :: "string list"
  screenings :: "screening_doc list"

definition first_completion :: "response_data \<Rightarrow> string option" where
  \<comment> \<open>\<^verbatim>\<open>data.candidates?.[0]?.content?.parts?.[0]?.text\<close>\<close>
  "first_completion d =
     (case candidates_of d of
        None \<Rightarrow> None
      | Some [] \<Rightarrow> None
      | Some (c # _) \<Rightarrow>
          (case content_of c of
             None \<Rightarrow> None
           | Some ct \<Rightarrow>
               (case parts_of ct of
                  None \<Rightarrow> None
                | Some [] \<Rightarrow> None
                | Some (p # _) \<Rightarrow> text_of p)))"

definition no_completion_message :: string where
  "no_completion_message = ''I couldn't process that request.''"

definition connection_error_message :: string where
  "connection_error_message = ''Error connecting to AI services. Please try again.''"

definition gemini_body :: "fetch_result \<Rightarrow> js_error + string" where
  \<comment> \<open>the body of the \<^verbatim>\<open>try\<close> block, once the outcome of the fetch is known\<close>
  "gemini_body r =
     (case r of
        NetworkError \<Rightarrow> Inl TypeError
      | Response ok body \<Rightarrow>
          if \<not> ok then Inl (Error ''Gemini API Error'')
          else (case body of
                  None \<Rightarrow> Inl SyntaxError
                | Some d \<Rightarrow>
                    (case first_completion d of
                       None \<Rightarrow> Inr no_completion_message
                     | Some t \<Rightarrow> Inr (if t = [] then no_completion_message else t))))"

definition callGemini_send :: "string \<Rightarrow> string \<Rightarrow> world \<Rightarrow> world" where
  \<comment> \<open>the call up to its \<^verbatim>\<open>await fetch(...)\<close>: one POST request\<close>
  "callGemini_send prompt systemInstruction w =
     w\<lparr>requests := requests w @ [(prompt, systemInstruction)]\<rparr>"

definition callGemini_receive :: "fetch_result \<Rightarrow> world \<Rightarrow> string \<times> world" where
  \<comment> \<open>the call from the moment the fetch settles: the \<^verbatim>\<open>catch\<close> block turns every
      exception into a returned text\<close>
  "callGemini_receive r w =
     (case gemini_body r of
        Inr t \<Rightarrow> (t, w)
      | Inl e \<Rightarrow> (connection_error_message, w\<lparr>console := console w @ [''AI Error:'']\<rparr>))"

definition callGemini :: "fetch_result \<Rightarrow> string \<Rightarrow> string \<Rightarrow> world \<Rightarrow> string \<times> world" where
  "callGemini r prompt systemInstruction w =
     callGemini_receive r (callGemini_send prompt systemInstruction w)"

section \<open>Screening pipeline: \<^verbatim>\<open>handleScreening\<close>\<close>

definition nl :: string where
  "nl = [CHR 0x0A]"

definition screening_prompt :: "string \<Rightarrow> string \<Rightarrow> string" where
  \<open>screening_prompt jd rt =
     nl @
     ''      Act as an expert Technical Recruiter.'' @ nl @
     ''      Job Description: '' @ jd @ nl @
     ''      Candidate Resume Text: '' @ rt @ nl @
     ''      '' @ nl @
     ''      Task:'' @ nl @
     ''      1. Analyze the match between the resume and JD.'' @ nl @
     ''      2. Provide a match score (0-100).'' @ nl @
     ''      3. List 3 key strengths.'' @ nl @
     ''      4. List 3 missing skills or gaps.'' @ nl @
     ''      5. Final hiring recommendation (Strong Hire, Hire, Weak Hire, Reject).'' @ nl @
     ''      '' @ nl @
     ''      Output strictly in JSON format:'' @ nl @
     ''      {'' @ nl @
     ''        "score": number,'' @ nl @
     ''        "strengths": ["string"],'' @ nl @
     ''        "gaps": ["string"],'' @ nl @
     ''        "recommendation": "string",'' @ nl @
     ''        "summary": "string"'' @ nl @
     ''      }'' @ nl @
     ''    ''\<close>

text \<open>
  The state of the \<^verbatim>\<open>ResumeScreener\<close> component that \<^verbatim>\<open>handleScreening\<close> reads and
  writes. \<^verbatim>\<open>analysis\<close> is \<^verbatim>\<open>null\<close> until a report is shown.
\<close>

record screener =
  jobDesc :: string
  resumeText :: string
  analysis :: json
  loading :: bool

text \<open>
  What the outside contributes to one run of \<^verbatim>\<open>handleScreening\<close>: the outcome of the
  fetch, whether the store accepts the \<^verbatim>\<open>addDoc\<close> write, and the clock. The caller's
  \<^verbatim>\<open>user.uid\<close> is a parameter: the component is rendered only for a signed-in user. The
  \<^verbatim>\<open>history\<close> list, which a store subscription refreshes, is not read by
  \<^verbatim>\<open>handleScreening\<close> and is left out.
\<close>

record screening_env =
  gateway :: fetch_result
  store_accepts :: bool
  clock :: int

fun get_property :: "json \<Rightarrow> string \<Rightarrow> js_error + json option" where
  \<comment> \<open>\<^verbatim>\<open>v.k\<close> for a name \<open>k\<close> that no prototype defines; \<open>None\<close> is \<^verbatim>\<open>undefined\<close>\<close>
  "get_property JNull k = Inl TypeError"
| "get_property (JObj ms) k = Inr (map_of ms k)"
| "get_property v k = Inr None"

text \<open>
  Extraction of the structured payload, as \<^verbatim>\<open>handleScreening\<close> does it: the fence markers
  are deleted, the text is trimmed and the rest is parsed.
\<close>

definition extractJson :: "string \<Rightarrow> json option" where
  "extractJson resultText = JSON_parse (trim (strip_fences resultText))"

definition screening_failed :: "screener \<times> world \<Rightarrow> screener \<times> world" where
  \<comment> \<open>the \<^verbatim>\<open>catch\<close> block, then the \<^verbatim>\<open>finally\<close> block\<close>
  "screening_failed sw =
     (case sw of (s, w) \<Rightarrow>
        (s\<lparr>loading := False\<rparr>,
         w\<lparr>console := console w @ [''Parsing failed''],
           alerts := alerts w @ [''AI Analysis failed. Try again.'']\<rparr>))"

definition handleScreening ::
  "screening_env \<Rightarrow> string \<Rightarrow> screener \<times> world \<Rightarrow> screener \<times> world" where
  "handleScreening env uid sw =
     (case sw of (s, w) \<Rightarrow>
        if jobDesc s = [] \<or> resumeText s = [] then (s, w)
        else
          let s1 = s\<lparr>loading := True, analysis := JNull\<rparr>;
              prompt = screening_prompt (jobDesc s) (resumeText s);
              (resultText, w1) = callGemini (gateway env) prompt ''Return only valid JSON.'' w
          in case extractJson resultText of
               None \<Rightarrow> screening_failed (s1, w1)
             | Some result \<Rightarrow>
                 let s2 = s1\<lparr>analysis := result\<rparr>
                 in case get_property result ''score'' of
                      Inl e \<Rightarrow> screening_failed (s2, w1)
                    | Inr sc \<Rightarrow>
                        (case get_property result ''recommendation'' of
                           Inl e \<Rightarrow> screening_failed (s2, w1)
                         | Inr rc \<Rightarrow>
                             if store_accepts env then
                               (s2\<lparr>loading := False\<rparr>,
                                w1\<lparr>screenings := screenings w1 @
                                   [\<lparr>jobTitle = slice0 30 (jobDesc s) @ ''...'',
                                     score = sc,
                                     recommendation = rc,
                                     timestamp = clock env,
                                     createdBy = uid\<rparr>]\<rparr>)
                             else screening_failed (s2, w1)))"

section \<open>Interview session: \<^verbatim>\<open>InterviewAgent\<close>\<close>

datatype sender = AI | CANDIDATE

record turn =
  sender :: sender
  turn_text :: string

definition turn_json :: "turn \<Rightarrow> json" where
  "turn_json t =
     JObj [(''sender'', JStr (case sender t of AI \<Rightarrow> ''ai'' | CANDIDATE \<Rightarrow> ''candidate'')),
           (''text'', JStr (turn_text t))]"

definition conv_json :: "turn list \<Rightarrow> json" where
  "conv_json c = JArr (map turn_json c)"

definition welcome_message :: "string \<Rightarrow> string" where
  \<open>welcome_message r =
     ''Welcome to the interview for the '' @ r @ '' position. I am your AI interviewer. Let's start with a simple question: Tell me about yourself and why you applied for this role.''\<close>

definition interview_prompt :: "string \<Rightarrow> turn list \<Rightarrow> string" where
  \<open>interview_prompt r newConv =
     nl @
     ''      You are an AI Interviewer for a '' @ r @ '' position.'' @ nl @
     ''      Conversation History: '' @ JSON_stringify (conv_json newConv) @ nl @
     ''      '' @ nl @
     ''      Task:'' @ nl @
     ''      1. Analyze the candidate's last answer.'' @ nl @
     ''      2. If the interview is short (< 3 turns), ask a relevant follow-up or new technical/behavioral question.'' @ nl @
     ''      3. If the interview is long enough (3 turns), say "Thank you, that concludes the interview" and provide a feedback summary.'' @ nl @
     ''      '' @ nl @
     ''      Return ONLY the response text.'' @ nl @
     ''    ''\<close>

definition feedback_prompt :: "turn list \<Rightarrow> string" where
  \<open>feedback_prompt history =
     ''Based on this interview transcript: '' @ JSON_stringify (conv_json history) @ '', generate a JSON with "score" (0-100), "pros", "cons".''\<close>

definition marker :: string where
  "marker = ''concludes''"

text \<open>The React state of the component.\<close>

record interview =
  active :: bool
  role :: string
  conversation :: "turn list"
  currentInput :: string
  isListening :: bool
  feedback :: json

text \<open>
  The component together with the outside and the calls that are suspended at an
  \<^verbatim>\<open>await\<close>: each \<^verbatim>\<open>handleResponse\<close> waiting for its reply holds the \<^verbatim>\<open>newConv\<close> it has
  captured; a \<^verbatim>\<open>generateFeedback\<close> waiting for its answer holds nothing the model needs.
\<close>

record session =
  ui :: interview
  outside :: world
  awaiting_reply :: "turn list list"
  awaiting_feedback :: nat

definition startInterview :: "interview \<Rightarrow> interview" where
  "startInterview c =
     (if role c = [] then c
      else c\<lparr>active := True,
             conversation := [\<lparr>sender = AI, turn_text = welcome_message (role c)\<rparr>]\<rparr>)"

definition endSession :: "interview \<Rightarrow> interview" where
  \<comment> \<open>\<^verbatim>\<open>setActive(false); setConversation([]); setFeedback(null);\<close>\<close>
  "endSession c = c\<lparr>active := False, conversation := [], feedback := JNull\<rparr>"

definition handleResponse :: "session \<Rightarrow> session" where
  \<comment> \<open>from the call to the \<^verbatim>\<open>await callGemini(...)\<close>\<close>
  "handleResponse st =
     (let c = ui st in
      if trim (currentInput c) = [] then st
      else
        let userAns = currentInput c;
            newConv = conversation c @ [\<lparr>sender = CANDIDATE, turn_text = userAns\<rparr>];
            prompt = interview_prompt (role c) newConv
        in st\<lparr>ui := c\<lparr>conversation := newConv, currentInput := [], isListening := False\<rparr>,
              outside := callGemini_send prompt ''Be professional and concise.'' (outside st),
              awaiting_reply := awaiting_reply st @ [newConv]\<rparr>)"

definition generateFeedback :: "turn list \<Rightarrow> session \<Rightarrow> session" where
  \<comment> \<open>from the call to the \<^verbatim>\<open>await callGemini(...)\<close>\<close>
  "generateFeedback history st =
     st\<lparr>outside := callGemini_send (feedback_prompt history) ''JSON only.'' (outside st),
        awaiting_feedback := Suc (awaiting_feedback st)\<rparr>"

definition handleResponse_resume :: "nat \<Rightarrow> fetch_result \<Rightarrow> session \<Rightarrow> session" where
  \<comment> \<open>the rest of the \<open>k\<close>-th suspended \<^verbatim>\<open>handleResponse\<close>, when its fetch settles\<close>
  "handleResponse_resume k r st =
     (if length (awaiting_reply st) \<le> k then st
      else
        let newConv = awaiting_reply st ! k;
            (reply, w) = callGemini_receive r (outside st);
            finalConv = newConv @ [\<lparr>sender = AI, turn_text = reply\<rparr>];
            st1 = st\<lparr>ui := (ui st)\<lparr>conversation := finalConv\<rparr>,
                     outside := w,
                     awaiting_reply := take k (awaiting_reply st) @ drop (Suc k) (awaiting_reply st)\<rparr>
        in if includes_str reply marker then generateFeedback finalConv st1 else st1)"

definition generateFeedback_resume :: "fetch_result \<Rightarrow> session \<Rightarrow> session" where
  \<comment> \<open>the rest of a suspended \<^verbatim>\<open>generateFeedback\<close>, when its fetch settles\<close>
  "generateFeedback_resume r st =
     (if awaiting_feedback st = 0 then st
      else
        let (res, w) = callGemini_receive r (outside st);
            st1 = st\<lparr>outside := w, awaiting_feedback := awaiting_feedback st - 1\<rparr>
        in case JSON_parse (strip_fences res) of
             None \<Rightarrow> st1\<lparr>outside := w\<lparr>console := console w @ [''SyntaxError'']\<rparr>\<rparr>
           | Some json \<Rightarrow> st1\<lparr>ui := (ui st1)\<lparr>feedback := json\<rparr>\<rparr>)"

subsection \<open>What the rendered page lets happen\<close>

definition zero_numeral :: "string \<Rightarrow> bool" where
  \<comment> \<open>a numeral whose digits before the exponent are all zero; a numeral that
      underflows to zero as a double is not recognised\<close>
  "zero_numeral l =
     list_all (\<lambda>c. \<not> is_digit c \<or> c = CHR ''0'')
       (takeWhile (\<lambda>c. c \<noteq> CHR ''e'' \<and> c \<noteq> CHR ''E'') l)"

fun truthy :: "json \<Rightarrow> bool" where
  \<comment> \<open>\<^verbatim>\<open>!!v\<close>\<close>
  "truthy JNull = False"
| "truthy (JBool b) = b"
| "truthy (JNum n) = (n \<noteq> 0)"
| "truthy (JReal l) = (\<not> zero_numeral l)"
| "truthy (JStr s) = (s \<noteq> [])"
| "truthy (JArr vs) = True"
| "truthy (JObj ms) = True"

text \<open>
  The events of a session. While \<^verbatim>\<open>active\<close> is false the component renders the start
  screen (role field, Start button); otherwise the transcript with the End Session button,
  and the answer field with its Send button as long as \<^verbatim>\<open>feedback\<close> is falsy. A suspended
  call resumes when its fetch settles, whatever the page shows then.
\<close>

datatype event =
    SetRole string
  | ClickStart
  | SetInput string
  | Submit
  | ClickEndSession
  | ReplySettles nat fetch_result
  | FeedbackSettles fetch_result

fun step :: "session \<Rightarrow> event \<Rightarrow> session" where
  "step st (SetRole r) =
     (if active (ui st) then st else st\<lparr>ui := (ui st)\<lparr>role := r\<rparr>\<rparr>)"
| "step st ClickStart =
     (if active (ui st) then st else st\<lparr>ui := startInterview (ui st)\<rparr>)"
| "step st (SetInput s) =
     (if active (ui st) \<and> \<not> truthy (feedback (ui st))
      then st\<lparr>ui := (ui st)\<lparr>currentInput := s\<rparr>\<rparr> else st)"
| "step st Submit =
     (if active (ui st) \<and> \<not> truthy (feedback (ui st)) then handleResponse st else st)"
| "step st ClickEndSession =
     (if active (ui st) then st\<lparr>ui := endSession (ui st)\<rparr> else st)"
| "step st (ReplySettles k r) = handleResponse_resume k r st"
| "step st (FeedbackSettles r) = generateFeedback_resume r st"

definition run :: "event list \<Rightarrow> session \<Rightarrow> session" where
  "run evs st = foldl step st evs"

definition empty_world :: world where
  "empty_world = \<lparr>requests = [], console = [], alerts = [], screenings = []\<rparr>"

definition initial_session :: session where
  "initial_session =
     \<lparr>ui = \<lparr>active = False, role = [], conversation = [], currentInput = [],
             isListening = False, feedback = JNull\<rparr>,
      outside = empty_world, awaiting_reply = [], awaiting_feedback = 0\<rparr>"

definition gateway_text :: "fetch_result \<Rightarrow> string" where
  \<comment> \<open>the text \<^verbatim>\<open>callGemini\<close> returns when its fetch settles as \<open>r\<close>\<close>
  "gateway_text r = fst (callGemini_receive r empty_world)"



definition candidate_turns :: "turn list \<Rightarrow> nat" where
  "candidate_turns c = length (filter (\<lambda>t. sender t = CANDIDATE) c)"



definition call_failed :: "fetch_result \<Rightarrow> bool" where
  \<comment> \<open>no connection, a non-success status, an unreadable body, or no completion field\<close>
  "call_failed r =
     (case r of
        NetworkError \<Rightarrow> True
      | Response ok body \<Rightarrow>
          \<not> ok \<or> (case body of None \<Rightarrow> True | Some d \<Rightarrow> first_completion d = None))"

definition initial_screener :: screener where
  "initial_screener = \<lparr>jobDesc = [], resumeText = [], analysis = JNull, loading = False\<rparr>"

text \<open>A reply of the endpoint whose first completion is the given text.\<close>

definition completion :: "string \<Rightarrow> fetch_result" where
  "completion t =
     Response True (Some (ResponseData (Some [GenCandidate (Some (Content (Some [Part (Some t)])))])))"

text \<open>The screening scenario of the specification.\<close>

definition go_payload :: string where
  \<open>go_payload =
     fence_json @ nl @
     ''{"score": 88, "strengths": ["Go", "Distributed systems", "Concurrency"], '' @
     ''"gaps": ["Kubernetes", "Rust", "Team leadership"], '' @
     ''"recommendation": "Hire", "summary": "Strong match."}'' @ nl @
     fence\<close>

definition go_report :: "(string \<times> json) list" where
  "go_report =
     [(''score'', JNum 88),
      (''strengths'', JArr [JStr ''Go'', JStr ''Distributed systems'', JStr ''Concurrency'']),
      (''gaps'', JArr [JStr ''Kubernetes'', JStr ''Rust'', JStr ''Team leadership'']),
      (''recommendation'', JStr ''Hire''),
      (''summary'', JStr ''Strong match.'')]"

definition go_screener :: screener where
  "go_screener =
     \<lparr>jobDesc = ''Senior Go Engineer...'',
      resumeText = ''5 years Go, distributed systems...'',
      analysis = JNull, loading = False\<rparr>"

definition go_env :: "bool \<Rightarrow> screening_env" where
  "go_env accepts = \<lparr>gateway = completion go_payload, store_accepts = accepts, clock = 1700000000\<rparr>"

definition offline_env :: screening_env where
  "offline_env = \<lparr>gateway = NetworkError, store_accepts = True, clock = 1700000000\<rparr>"

definition blank_job_screener :: screener where
  "blank_job_screener =
     \<lparr>jobDesc = '' '', resumeText = ''5 years Go'', analysis = JNull, loading = False\<rparr>"

definition blank_answer_session :: session where
  "blank_answer_session =
     initial_session\<lparr>ui := (ui initial_session)
       \<lparr>active := True, role := ''Go Engineer'',
        conversation := [\<lparr>sender = AI, turn_text = welcome_message ''Go Engineer''\<rparr>],
        currentInput := [CHR 0x20, CHR 0x09, CHR 0xA0]\<rparr>\<rparr>"



text \<open>Sessions of the scenarios: started for a role, and with a first answer sent.\<close>

definition started_session :: session where
  "started_session = run [SetRole ''Go Engineer'', ClickStart] initial_session"

definition asked_session :: session where
  "asked_session = run [SetInput ''I build services in Go.'', Submit] started_session"

definition closing_reply :: fetch_result where
  "closing_reply = completion ''Thank you, that concludes the interview. Good answers.''"


definition feedback_payload :: string where
  \<open>feedback_payload = ''{"score": 72, "pros": ["clear"], "cons": ["brief"]}''\<close>

definition unanswered_feedback_run :: "event list" where
  \<comment> \<open>the reply closes the interview, then the feedback call finds no connection\<close>
  "unanswered_feedback_run =
     [SetRole ''Go Engineer'', ClickStart, SetInput ''I build services in Go.'', Submit,
      ReplySettles 0 closing_reply, FeedbackSettles NetworkError]"

definition stale_feedback_run :: "event list" where
  \<comment> \<open>End Session is clicked while the feedback call is suspended\<close>
  "stale_feedback_run =
     [SetRole ''Go Engineer'', ClickStart, SetInput ''I build services in Go.'', Submit,
      ReplySettles 0 closing_reply, ClickEndSession, FeedbackSettles (completion feedback_payload)]"

definition stale_reply_run :: "event list" where
  \<comment> \<open>End Session is clicked while the reply to the first answer is awaited\<close>
  "stale_reply_run =
     [SetRole ''Go Engineer'', ClickStart, SetInput ''I build services in Go.'', Submit,
      ClickEndSession, ReplySettles 0 (completion ''How do you test them?'')]"

definition quiescent :: "session \<Rightarrow> bool" where
  \<comment> \<open>no call of the session is suspended\<close>
  "quiescent st \<longleftrightarrow> awaiting_reply st = [] \<and> awaiting_feedback st = 0"

definition at_rest :: "session \<Rightarrow> bool" where
  \<comment> \<open>not started, nothing shown, nothing suspended\<close>
  "at_rest st \<longleftrightarrow>
     \<not> active (ui st) \<and> conversation (ui st) = [] \<and> feedback (ui st) = JNull \<and> quiescent st"





section \<open>Properties\<close>

subsection \<open>Gateway\<close>

lemma callGemini_receive_text: "fst (callGemini_receive r w) = gateway_text r"
  by (simp add: gateway_text_def callGemini_receive_def split: sum.splits)

lemma callGemini_receive_frame:
  "requests (snd (callGemini_receive r w)) = requests w"
  "alerts (snd (callGemini_receive r w)) = alerts w"
  "screenings (snd (callGemini_receive r w)) = screenings w"
  by (simp_all add: callGemini_receive_def split: sum.splits)

lemma callGemini_text: "fst (callGemini r p s w) = gateway_text r"
  by (simp add: callGemini_def callGemini_receive_text)

lemma callGemini_requests: "requests (snd (callGemini r p s w)) = requests w @ [(p, s)]"
  by (simp add: callGemini_def callGemini_receive_frame callGemini_send_def)


lemma gateway_text_failed:
  "call_failed r \<Longrightarrow> gateway_text r = no_completion_message \<or> gateway_text r = connection_error_message"
  by (auto simp: call_failed_def gateway_text_def callGemini_receive_def gemini_body_def
           split: fetch_result.splits option.splits)

text \<open>
  Claim C2. When the underlying call fails (no connection, a non-success status, an
  unreadable body, or a response without a completion field), \<^verbatim>\<open>callGemini\<close> returns one of
  its two fixed messages, which are not empty. It returns a text in every case: the result
  type has no exception, because the \<^verbatim>\<open>catch\<close> block turns every exception of the body
  into the second message. The call sends exactly one request, the one it was given.
\<close>

theorem callGemini_fallback:
  assumes "call_failed r"
  shows "(fst (callGemini r prompt sys w) = no_completion_message
           \<or> fst (callGemini r prompt sys w) = connection_error_message)
         \<and> fst (callGemini r prompt sys w) \<noteq> []
         \<and> requests (snd (callGemini r prompt sys w)) = requests w @ [(prompt, sys)]"
proof -
  have "gateway_text r = no_completion_message \<or> gateway_text r = connection_error_message"
    using assms by (rule gateway_text_failed)
  moreover have "no_completion_message \<noteq> []" and "connection_error_message \<noteq> []"
    by (simp_all add: no_completion_message_def connection_error_message_def)
  ultimately show ?thesis
    by (auto simp: callGemini_text callGemini_requests)
qed

theorem callGemini_fallback_witness:
  "call_failed (Response False None)
   \<and> fst (callGemini (Response False None) ''Hello'' ''Be brief.'' empty_world)
       = ''Error connecting to AI services. Please try again.''
   \<and> call_failed (Response True (Some (ResponseData (Some []))))
   \<and> fst (callGemini (Response True (Some (ResponseData (Some []))))
            ''Hello'' ''Be brief.'' empty_world)
       = ''I couldn't process that request.''
   \<and> requests (snd (callGemini (Response False None) ''Hello'' ''Be brief.'' empty_world))
       = [(''Hello'', ''Be brief.'')]"
proof -
  have f1: "call_failed (Response False None)"
    by (simp add: call_failed_def)
  have f2: "call_failed (Response True (Some (ResponseData (Some []))))"
    by (simp add: call_failed_def first_completion_def)
  have t1: "fst (callGemini (Response False None) ''Hello'' ''Be brief.'' empty_world)
            = ''Error connecting to AI services. Please try again.''"
    by (simp add: callGemini_def callGemini_receive_def gemini_body_def
          connection_error_message_def)
  have t2: "fst (callGemini (Response True (Some (ResponseData (Some []))))
                 ''Hello'' ''Be brief.'' empty_world)
            = ''I couldn't process that request.''"
    by (simp add: callGemini_def callGemini_receive_def gemini_body_def first_completion_def
          no_completion_message_def)
  from callGemini_fallback [OF f1, of "''Hello''" "''Be brief.''" empty_world]
  have "requests (snd (callGemini (Response False None) ''Hello'' ''Be brief.'' empty_world))
        = [(''Hello'', ''Be brief.'')]"
    by (simp add: empty_world_def)
  with f1 f2 t1 t2 show ?thesis by simp
qed

subsection \<open>Screening\<close>

lemma handleScreening_guard:
  "jobDesc s = [] \<or> resumeText s = [] \<Longrightarrow> handleScreening env uid (s, w) = (s, w)"
  by (auto simp: handleScreening_def)


lemma handleScreening_object:
  assumes "jobDesc s \<noteq> []" and "resumeText s \<noteq> []"
    and "extractJson (gateway_text (gateway env)) = Some (JObj ms)"
  shows "handleScreening env uid (s, w) =
           (let s2 = s\<lparr>loading := True, analysis := JObj ms\<rparr>;
                w1 = snd (callGemini (gateway env) (screening_prompt (jobDesc s) (resumeText s))
                            ''Return only valid JSON.'' w)
            in if store_accepts env then
                 (s2\<lparr>loading := False\<rparr>,
                  w1\<lparr>screenings := screenings w1 @
                       [\<lparr>jobTitle = slice0 30 (jobDesc s) @ ''...'',
                         score = map_of ms ''score'',
                         recommendation = map_of ms ''recommendation'',
                         timestamp = clock env,
                         createdBy = uid\<rparr>]\<rparr>)
               else screening_failed (s2, w1))"
  using assms
  by (simp add: handleScreening_def Let_def case_prod_beta callGemini_text)

lemma callGemini_frame:
  "screenings (snd (callGemini r p sys w)) = screenings w"
  "alerts (snd (callGemini r p sys w)) = alerts w"
  by (simp_all add: callGemini_def callGemini_receive_frame callGemini_send_def)


lemma gateway_text_completion:
  "gateway_text (completion t) = (if t = [] then no_completion_message else t)"
  by (simp add: gateway_text_def completion_def callGemini_receive_def gemini_body_def
        first_completion_def)

lemma go_payload_extracted: "extractJson go_payload = Some (JObj go_report)"
  by code_simp

lemma go_payload_text: "gateway_text (completion go_payload) = go_payload"
  by (simp add: gateway_text_completion go_payload_def fence_json_def fence_def)


lemma callGemini_console:
  "console (snd (callGemini r p sys w)) =
     console w @ (case gemini_body r of Inl e \<Rightarrow> [''AI Error:''] | Inr t \<Rightarrow> [])"
  by (simp add: callGemini_def callGemini_receive_def callGemini_send_def split: sum.splits)








text \<open>
  Claim C8, at the screening scenario of the specification with a store that rejects the
  write. The analysis stays shown and nothing is appended, but the rejected write runs the
  \<^verbatim>\<open>catch\<close> block written for parse failures: the console line is \<^verbatim>\<open>Parsing failed\<close> and the
  dialog \<^verbatim>\<open>AI Analysis failed. Try again.\<close> is put before the user.
\<close>

theorem store_failure_alerts_user:
  "analysis (fst (handleScreening (go_env False) ''u1'' (go_screener, empty_world)))
     = JObj go_report
   \<and> screenings (snd (handleScreening (go_env False) ''u1'' (go_screener, empty_world))) = []
   \<and> console (snd (handleScreening (go_env False) ''u1'' (go_screener, empty_world)))
       = [''Parsing failed'']
   \<and> alerts (snd (handleScreening (go_env False) ''u1'' (go_screener, empty_world)))
       = [''AI Analysis failed. Try again.'']"
proof -
  have h1: "jobDesc go_screener \<noteq> []" and h2: "resumeText go_screener \<noteq> []"
    by (simp_all add: go_screener_def)
  have h3: "extractJson (gateway_text (gateway (go_env False))) = Some (JObj go_report)"
    by (simp add: go_env_def go_payload_text go_payload_extracted)
  have b: "gemini_body (completion go_payload) = Inr go_payload"
    by (simp add: gemini_body_def completion_def first_completion_def go_payload_def
          fence_json_def fence_def)
  show ?thesis
    unfolding handleScreening_object [OF h1 h2 h3]
    by (simp add: Let_def screening_failed_def callGemini_frame callGemini_console go_env_def
          empty_world_def b)
qed

text \<open>
  Claim C7, as stated, fails for the screening: its guard tests the two texts for
  emptiness and does not trim them. With a job description of one space the request is
  sent.
\<close>

theorem blank_job_description_is_screened:
  "trim (jobDesc blank_job_screener) = []
   \<and> requests (snd (handleScreening offline_env ''u1'' (blank_job_screener, empty_world)))
       = [(screening_prompt '' '' ''5 years Go'', ''Return only valid JSON.'')]"
proof -
  have "trim (jobDesc blank_job_screener) = []"
    by (simp add: blank_job_screener_def trim_def is_whitespace_def)
  moreover have "requests (snd (handleScreening offline_env ''u1'' (blank_job_screener, empty_world)))
       = [(screening_prompt '' '' ''5 years Go'', ''Return only valid JSON.'')]"
    by (simp add: handleScreening_def Let_def case_prod_beta screening_failed_def
          callGemini_requests blank_job_screener_def empty_world_def split: option.splits sum.splits)
  ultimately show ?thesis by simp
qed

text \<open>
  Claim C7, amended. \<^verbatim>\<open>handleResponse\<close> called with an answer that is empty or consists of
  whitespace returns at once: the session, the outside and the suspended calls are what they
  were, so no request is sent. \<^verbatim>\<open>handleScreening\<close> called with an empty job description or
  an empty resume text returns at once in the same way.
\<close>

theorem blank_input_guards:
  "(trim (currentInput (ui st)) = [] \<longrightarrow> handleResponse st = st \<and> step st Submit = st)
   \<and> (jobDesc s = [] \<or> resumeText s = [] \<longrightarrow> handleScreening env uid (s, w) = (s, w))"
  by (simp add: handleResponse_def handleScreening_guard)

theorem blank_input_guards_witness:
  "trim (currentInput (ui blank_answer_session)) = []
   \<and> handleResponse blank_answer_session = blank_answer_session
   \<and> requests (outside (handleResponse blank_answer_session)) = []
   \<and> resumeText initial_screener = []
   \<and> handleScreening offline_env ''u1'' (initial_screener, empty_world)
       = (initial_screener, empty_world)"
proof -
  have h1: "trim (currentInput (ui blank_answer_session)) = []"
    by (simp add: blank_answer_session_def initial_session_def trim_def is_whitespace_def)
  have h2: "resumeText initial_screener = []"
    by (simp add: initial_screener_def)
  from blank_input_guards [of blank_answer_session initial_screener offline_env "''u1''" empty_world]
    h1 h2
  show ?thesis
    by (simp add: blank_answer_session_def initial_session_def empty_world_def)
qed

subsection \<open>Interview\<close>

lemma handleResponse_resume_effect:
  assumes "k < length (awaiting_reply st)"
  shows "handleResponse_resume k r st =
           (let finalConv = awaiting_reply st ! k @ [\<lparr>sender = AI, turn_text = gateway_text r\<rparr>];
                st1 = st\<lparr>ui := (ui st)\<lparr>conversation := finalConv\<rparr>,
                         outside := snd (callGemini_receive r (outside st)),
                         awaiting_reply :=
                           take k (awaiting_reply st) @ drop (Suc k) (awaiting_reply st)\<rparr>
            in if includes_str (gateway_text r) marker
               then generateFeedback finalConv st1 else st1)"
  using assms
  by (simp add: handleResponse_resume_def Let_def case_prod_beta callGemini_receive_text)





lemma started_session_facts:
  "active (ui started_session)" "feedback (ui started_session) = JNull"
  "awaiting_reply started_session = []" "awaiting_feedback started_session = 0"
  "requests (outside started_session) = []"
  "candidate_turns (conversation (ui started_session)) = 0"
  by (simp_all add: started_session_def run_def initial_session_def startInterview_def
        empty_world_def candidate_turns_def)

lemma asked_session_facts:
  "awaiting_reply asked_session =
     [[\<lparr>sender = AI, turn_text = welcome_message ''Go Engineer''\<rparr>,
       \<lparr>sender = CANDIDATE, turn_text = ''I build services in Go.''\<rparr>]]"
  "awaiting_feedback asked_session = 0"
  by (simp_all add: asked_session_def started_session_def run_def initial_session_def
        startInterview_def handleResponse_def Let_def trim_def is_whitespace_def)






lemma run_Cons: "run (e # evs) st = run evs (step st e)"
  by (simp add: run_def)

lemma run_Nil: "run [] st = st"
  by (simp add: run_def)






lemma asked_session_ui:
  "ui asked_session =
     \<lparr>active = True, role = ''Go Engineer'',
      conversation = [\<lparr>sender = AI, turn_text = welcome_message ''Go Engineer''\<rparr>,
                      \<lparr>sender = CANDIDATE, turn_text = ''I build services in Go.''\<rparr>],
      currentInput = [], isListening = False, feedback = JNull\<rparr>"
  by (simp add: asked_session_def started_session_def run_def initial_session_def
        startInterview_def handleResponse_def Let_def trim_def is_whitespace_def)

lemma runs_from_asked:
  "run unanswered_feedback_run initial_session =
     run [ReplySettles 0 closing_reply, FeedbackSettles NetworkError] asked_session"
  "run stale_feedback_run initial_session =
     run [ReplySettles 0 closing_reply, ClickEndSession,
          FeedbackSettles (completion feedback_payload)] asked_session"
  "run stale_reply_run initial_session =
     run [ClickEndSession, ReplySettles 0 (completion ''How do you test them?'')] asked_session"
  by (simp_all add: unanswered_feedback_run_def stale_feedback_run_def stale_reply_run_def
        asked_session_def started_session_def run_def)







lemma at_rest_step: "at_rest st \<Longrightarrow> e \<noteq> ClickStart \<Longrightarrow> at_rest (step st e)"
proof (cases e)
  case (ReplySettles k r)
  assume "at_rest st"
  with ReplySettles show ?thesis
    by (simp add: at_rest_def quiescent_def handleResponse_resume_def)
next
  case (FeedbackSettles r)
  assume "at_rest st"
  with FeedbackSettles show ?thesis
    by (simp add: at_rest_def quiescent_def generateFeedback_resume_def)
next
  case (SetRole r)
  assume "at_rest st"
  with SetRole show ?thesis
    by (simp add: at_rest_def quiescent_def)
next
  case (SetInput s)
  assume "at_rest st"
  with SetInput show ?thesis
    by (simp add: at_rest_def quiescent_def)
next
  case Submit
  assume "at_rest st"
  with Submit show ?thesis
    by (simp add: at_rest_def quiescent_def)
next
  case ClickEndSession
  assume "at_rest st"
  with ClickEndSession show ?thesis
    by (simp add: at_rest_def quiescent_def)
next
  case ClickStart
  assume "e \<noteq> ClickStart"
  with ClickStart show ?thesis by simp
qed

lemma at_rest_run: "at_rest st \<Longrightarrow> ClickStart \<notin> set evs \<Longrightarrow> at_rest (run evs st)"
proof (induction evs arbitrary: st)
  case Nil
  then show ?case by (simp add: run_Nil)
next
  case (Cons e evs)
  from Cons.prems have "e \<noteq> ClickStart" and n: "ClickStart \<notin> set evs"
    by auto
  with Cons.prems(1) have "at_rest (step st e)"
    by (simp add: at_rest_step)
  from Cons.IH [OF this n] show ?case
    by (simp add: run_Cons)
qed

lemma stale_reply_facts:
  "conversation (ui (run stale_reply_run initial_session)) =
     [\<lparr>sender = AI, turn_text = welcome_message ''Go Engineer''\<rparr>,
      \<lparr>sender = CANDIDATE, turn_text = ''I build services in Go.''\<rparr>,
      \<lparr>sender = AI, turn_text = ''How do you test them?''\<rparr>]"
  "\<not> active (ui (run stale_reply_run initial_session))"
proof -
  let ?st = "step asked_session ClickEndSession"
  have e: "?st = asked_session\<lparr>ui := endSession (ui asked_session)\<rparr>"
    by (simp add: asked_session_ui)
  have k: "0 < length (awaiting_reply ?st)"
    unfolding e by (simp add: asked_session_facts)
  have r: "run stale_reply_run initial_session
           = handleResponse_resume 0 (completion ''How do you test them?'') ?st"
    unfolding runs_from_asked run_Cons run_Nil by simp
  have m: "\<not> includes_str (gateway_text (completion ''How do you test them?'')) marker"
    by (simp add: gateway_text_completion marker_def)
  show "conversation (ui (run stale_reply_run initial_session)) =
     [\<lparr>sender = AI, turn_text = welcome_message ''Go Engineer''\<rparr>,
      \<lparr>sender = CANDIDATE, turn_text = ''I build services in Go.''\<rparr>,
      \<lparr>sender = AI, turn_text = ''How do you test them?''\<rparr>]"
    unfolding r handleResponse_resume_effect [OF k] using m
    by (simp add: Let_def e asked_session_facts gateway_text_completion)
  show "\<not> active (ui (run stale_reply_run initial_session))"
    unfolding r handleResponse_resume_effect [OF k] using m
    by (simp add: Let_def e asked_session_ui endSession_def)
qed
text \<open>
  Claim C6, as stated, fails: the component keeps no generation token. End Session is
  clicked while the reply to the first answer is awaited; when the reply arrives the
  suspended \<^verbatim>\<open>handleResponse\<close> stores the transcript it had captured, with the reply
  appended, into the session that was reset.
\<close>

theorem stale_reply_repopulates:
  "conversation (ui (run stale_reply_run initial_session)) =
     [\<lparr>sender = AI, turn_text = welcome_message ''Go Engineer''\<rparr>,
      \<lparr>sender = CANDIDATE, turn_text = ''I build services in Go.''\<rparr>,
      \<lparr>sender = AI, turn_text = ''How do you test them?''\<rparr>]
   \<and> \<not> active (ui (run stale_reply_run initial_session))"
  using stale_reply_facts by simp

text \<open>
  Claim C6, amended. End Session sets \<^verbatim>\<open>active\<close> to false, the transcript to empty and
  \<^verbatim>\<open>feedback\<close> to unset, whatever the state. When no call of the session is suspended at
  that moment, the session stays so until it is started again. A call that is suspended at
  that moment is not cancelled: when its reply arrives, the transcript becomes the
  transcript the call had captured, with the reply appended.
\<close>

theorem end_session_resets:
  "(active (endSession c) = False \<and> conversation (endSession c) = []
      \<and> feedback (endSession c) = JNull)
   \<and> (active (ui st) \<and> quiescent st \<and> ClickStart \<notin> set evs \<longrightarrow>
        \<not> active (ui (run evs (step st ClickEndSession)))
        \<and> conversation (ui (run evs (step st ClickEndSession))) = []
        \<and> feedback (ui (run evs (step st ClickEndSession))) = JNull)
   \<and> (k < length (awaiting_reply st) \<longrightarrow>
        conversation (ui (step (step st ClickEndSession) (ReplySettles k r))) =
          awaiting_reply st ! k @ [\<lparr>sender = AI, turn_text = gateway_text r\<rparr>])"
proof (intro conjI impI)
  show "active (endSession c) = False" "conversation (endSession c) = []"
    "feedback (endSession c) = JNull"
    by (simp_all add: endSession_def)
next
  assume a: "active (ui st) \<and> quiescent st \<and> ClickStart \<notin> set evs"
  then have "at_rest (step st ClickEndSession)"
    by (simp add: at_rest_def quiescent_def endSession_def)
  with a have r: "at_rest (run evs (step st ClickEndSession))"
    by (simp add: at_rest_run)
  from r show "\<not> active (ui (run evs (step st ClickEndSession)))"
    by (simp add: at_rest_def)
  from r show "conversation (ui (run evs (step st ClickEndSession))) = []"
    by (simp add: at_rest_def)
  from r show "feedback (ui (run evs (step st ClickEndSession))) = JNull"
    by (simp add: at_rest_def)
next
  assume k: "k < length (awaiting_reply st)"
  have "awaiting_reply (step st ClickEndSession) = awaiting_reply st"
    by simp
  with k have k': "k < length (awaiting_reply (step st ClickEndSession))"
    by simp
  show "conversation (ui (step (step st ClickEndSession) (ReplySettles k r))) =
          awaiting_reply st ! k @ [\<lparr>sender = AI, turn_text = gateway_text r\<rparr>]"
    using k' by (simp add: handleResponse_resume_effect Let_def generateFeedback_def)
qed

theorem end_session_resets_witness:
  "active (ui started_session) \<and> quiescent started_session
   \<and> ClickStart \<notin> set [SetRole ''Rust Engineer'', Submit, FeedbackSettles NetworkError]
   \<and> conversation (ui (run [SetRole ''Rust Engineer'', Submit, FeedbackSettles NetworkError]
                          (step started_session ClickEndSession))) = []
   \<and> feedback (ui (run [SetRole ''Rust Engineer'', Submit, FeedbackSettles NetworkError]
                      (step started_session ClickEndSession))) = JNull
   \<and> 0 < length (awaiting_reply asked_session)
   \<and> conversation (ui (step (step asked_session ClickEndSession)
                          (ReplySettles 0 (completion ''How do you test them?'')))) =
        [\<lparr>sender = AI, turn_text = welcome_message ''Go Engineer''\<rparr>,
         \<lparr>sender = CANDIDATE, turn_text = ''I build services in Go.''\<rparr>,
         \<lparr>sender = AI, turn_text = ''How do you test them?''\<rparr>]"
proof -
  have h1: "active (ui started_session) \<and> quiescent started_session"
    by (simp add: started_session_facts quiescent_def)
  have h2: "0 < length (awaiting_reply asked_session)"
    by (simp add: asked_session_facts)
  from end_session_resets [of "ui started_session" started_session
      "[SetRole ''Rust Engineer'', Submit, FeedbackSettles NetworkError]" 0
      "completion ''How do you test them?''"]
  have a: "(active (ui started_session) \<and> quiescent started_session \<longrightarrow>
     conversation (ui (run [SetRole ''Rust Engineer'', Submit, FeedbackSettles NetworkError]
                          (step started_session ClickEndSession))) = []
     \<and> feedback (ui (run [SetRole ''Rust Engineer'', Submit, FeedbackSettles NetworkError]
                      (step started_session ClickEndSession))) = JNull)"
    by simp
  from end_session_resets [of "ui started_session" asked_session "[]" 0
      "completion ''How do you test them?''"] h2
  have b: "conversation (ui (step (step asked_session ClickEndSession)
                          (ReplySettles 0 (completion ''How do you test them?'')))) =
        [\<lparr>sender = AI, turn_text = welcome_message ''Go Engineer''\<rparr>,
         \<lparr>sender = CANDIDATE, turn_text = ''I build services in Go.''\<rparr>,
         \<lparr>sender = AI, turn_text = ''How do you test them?''\<rparr>]"
    by (simp add: asked_session_facts gateway_text_completion)
  from a b h1 h2 show ?thesis by simp
qed

subsection \<open>Extraction\<close>


lemma startsWith_includes: "startsWith s t \<Longrightarrow> includes_str s t"
  by (cases s) (auto elim: startsWith.elims)

























end
